theory Spec2Isabelle
  imports Complex_Main
begin

section \<open>Data model (data_models/database_models.py)\<close>

text \<open>
  Identifiers are the uuid strings of the source. A \<open>datetime\<close> is an integral count of
  microseconds (Python's datetime resolution); a \<open>date\<close> is a day number.
  \<open>timedelta(days=n)\<close> is \<open>n\<close> days of microseconds, and \<open>.date()\<close> drops the time of day.
\<close>

type_synonym ident = string
type_synonym datetime = int
type_synonym date = int

definition day_us :: int where
  "day_us = 86400000000"

definition timedelta_days :: "int \<Rightarrow> int" where
  "timedelta_days n = n * day_us"

definition date_of :: "datetime \<Rightarrow> date" where
  "date_of t = t div day_us"


datatype PatientStatus = ACTIVE | INACTIVE | ARCHIVED | HIGH_RISK

datatype CardiacBiomarkerType =
  RESTING_HR | HRV_RMSSD | HRV_SDNN | HR_RECOVERY | ACTIVITY_LEVEL
  | SLEEP_DURATION | WEIGHT_TREND | SYMPTOM_REPORT

datatype AlertType =
  HIGH_HEART_RATE | LOW_HRV | SYMPTOM_DETERIORATION | MISSING_DATA | WEIGHT_INCREASE

text \<open>
  Exceptions as values. \<open>IntegrityError\<close> is the store refusing a second row with a primary
  key; \<open>ZeroDivisionError\<close>, \<open>OverflowError\<close> and \<open>KeyError\<close> are Python's;
  \<open>ValidationError\<close> is pydantic's; \<open>ServiceError\<close> stands for any other exception a service
  object passed to the sync raises.
\<close>

datatype error =
  IntegrityError | ZeroDivisionError | OverflowError | KeyError | ValidationError | ServiceError

text \<open>
  The range of Python's datetime, in microseconds from 1970-01-01: \<open>datetime.min\<close> is
  0001-01-01 00:00:00, day 1 of the proleptic calendar where 1970-01-01 is day 719163, and
  \<open>datetime.max\<close> is 9999-12-31 23:59:59.999999, the last microsecond of day 3652059.
  \<open>timedelta(days=n)\<close> raises for a magnitude above 999999999, and a subtraction whose result
  leaves the range raises.
\<close>

definition datetime_min :: datetime where
  "datetime_min = (1 - 719163) * day_us"

definition datetime_max :: datetime where
  "datetime_max = (3652059 - 719163 + 1) * day_us - 1"

definition timedelta :: "int \<Rightarrow> error + int" where
  "timedelta days = (if \<bar>days\<bar> \<le> 999999999 then Inr (days * day_us) else Inl OverflowError)"

definition datetime_sub :: "datetime \<Rightarrow> int \<Rightarrow> error + datetime" where
  "datetime_sub t delta =
     (if datetime_min \<le> t - delta \<and> t - delta \<le> datetime_max then Inr (t - delta)
      else Inl OverflowError)"

text \<open>The columns of each table that the modelled operations read or write.\<close>

record Patient =
  pt_id :: ident
  pt_created_at :: datetime
  pt_first_name :: string
  pt_last_name :: string
  pt_status :: PatientStatus
  pt_risk_level :: "string option"

record ClinicianPatient =
  cp_clinician_id :: ident
  cp_patient_id :: ident
  cp_is_primary :: bool

text \<open>
  \<open>WearableData\<close> and \<open>CalculatedBiomarker\<close> rows carry a surrogate uuid key that no
  modelled operation reads; a table is the list of its rows in insertion order, so two rows
  that agree on every other column are two elements of the list.
\<close>

record WearableData =
  wd_timestamp :: datetime
  wd_patient_id :: ident
  wd_heart_rate :: "real option"
  wd_hrv_rmssd :: "real option"
  wd_hrv_sdnn :: "real option"
  wd_steps :: "int option"
  wd_calories :: "real option"
  wd_sleep_minutes :: "real option"
  wd_spo2 :: "real option"
  wd_stress_level :: "real option"
  wd_source :: string
  wd_device_type :: "string option"
  wd_data_quality :: "real option"

record SymptomReport =
  sr_report_date :: date
  sr_patient_id :: ident
  sr_shortness_of_breath :: int
  sr_fatigue_level :: int

record CalculatedBiomarker =
  bm_timestamp :: datetime
  bm_patient_id :: ident
  bm_biomarker_type :: CardiacBiomarkerType
  bm_value :: real
  bm_unit :: string
  bm_confidence :: real

record ClinicalNote =
  cn_created_at :: datetime
  cn_patient_id :: ident
  cn_clinician_id :: ident
  cn_note_type :: string

record PatientAlert =
  al_id :: ident
  al_created_at :: datetime
  al_patient_id :: ident
  al_alert_type :: AlertType
  al_severity :: string
  al_title :: string
  al_description :: string
  al_is_resolved :: bool
  al_resolved_at :: "datetime option"
  al_resolved_by :: "string option"
  al_resolution_notes :: "string option"
  al_trigger_value :: "real option"
  al_normal_range :: "string option"
  al_relevant_data_ids :: "string option"

record database =
  patients :: "Patient list"
  assignments :: "ClinicianPatient list"
  wearable_data :: "WearableData list"
  symptom_reports :: "SymptomReport list"
  biomarkers :: "CalculatedBiomarker list"
  clinical_notes :: "ClinicalNote list"
  alerts :: "PatientAlert list"

definition empty_db :: database where
  "empty_db = \<lparr>patients = [], assignments = [], wearable_data = [], symptom_reports = [],
     biomarkers = [], clinical_notes = [], alerts = []\<rparr>"

text \<open>
  \<open>order_by(desc(column))\<close>: rows by descending key. The store leaves the order of rows
  with equal keys open; the model keeps one of the admissible orders.
\<close>

definition order_by_desc :: "('a \<Rightarrow> int) \<Rightarrow> 'a list \<Rightarrow> 'a list" where
  "order_by_desc key rows = rev (sort_key key rows)"

text \<open>Python truthiness of an optional string (\<open>if clinician_id:\<close>, \<open>if patient.risk_level:\<close>).\<close>

fun truthy_str :: "string option \<Rightarrow> bool" where
  "truthy_str None = False"
| "truthy_str (Some s) = (s \<noteq> [])"

text \<open>Python truthiness of an optional number (\<open>if d.heart_rate\<close>, \<open>if resting_hr:\<close>).\<close>

fun truthy_num :: "real option \<Rightarrow> bool" where
  "truthy_num None = False"
| "truthy_num (Some x) = (x \<noteq> 0)"

section \<open>Alert management (database/clinical_service.py)\<close>

text \<open>
  The dictionary given to \<open>create_alert\<close>: the columns without a default are present, a
  column with a default is \<open>None\<close> when its key is absent.
\<close>

record alert_data =
  ad_id :: "ident option"
  ad_created_at :: "datetime option"
  ad_patient_id :: ident
  ad_alert_type :: AlertType
  ad_severity :: "string option"
  ad_title :: string
  ad_description :: string
  ad_is_resolved :: "bool option"
  ad_resolved_at :: "datetime option"
  ad_resolved_by :: "string option"
  ad_resolution_notes :: "string option"
  ad_trigger_value :: "real option"
  ad_normal_range :: "string option"
  ad_relevant_data_ids :: "string option"

text \<open>
  \<open>PatientAlert(**alert_data)\<close>: \<open>uid\<close> is the value \<open>uuid.uuid4()\<close> produces and \<open>now\<close>
  the value of \<open>datetime.utcnow()\<close>, both used only where the dictionary has no key.
\<close>

definition new_alert :: "ident \<Rightarrow> datetime \<Rightarrow> alert_data \<Rightarrow> PatientAlert" where
  "new_alert uid now d =
     \<lparr>al_id = (case ad_id d of None \<Rightarrow> uid | Some i \<Rightarrow> i),
      al_created_at = (case ad_created_at d of None \<Rightarrow> now | Some t \<Rightarrow> t),
      al_patient_id = ad_patient_id d,
      al_alert_type = ad_alert_type d,
      al_severity = (case ad_severity d of None \<Rightarrow> ''medium'' | Some s \<Rightarrow> s),
      al_title = ad_title d,
      al_description = ad_description d,
      al_is_resolved = (case ad_is_resolved d of None \<Rightarrow> False | Some b \<Rightarrow> b),
      al_resolved_at = ad_resolved_at d,
      al_resolved_by = ad_resolved_by d,
      al_resolution_notes = ad_resolution_notes d,
      al_trigger_value = ad_trigger_value d,
      al_normal_range = ad_normal_range d,
      al_relevant_data_ids = ad_relevant_data_ids d\<rparr>"

text \<open>\<open>session.add\<close> and \<open>session.commit\<close>: an INSERT, refused when the primary key exists.\<close>

definition insert_alert :: "PatientAlert \<Rightarrow> database \<Rightarrow> error + database" where
  "insert_alert a db =
     (if al_id a \<in> set (map al_id (alerts db)) then Inl IntegrityError
      else Inr (db\<lparr>alerts := alerts db @ [a]\<rparr>))"

definition create_alert ::
  "ident \<Rightarrow> datetime \<Rightarrow> alert_data \<Rightarrow> database \<Rightarrow> error + (database \<times> PatientAlert)" where
  "create_alert uid now d db =
     (let alert = new_alert uid now d in
      case insert_alert alert db of
        Inl e \<Rightarrow> Inl e
      | Inr db' \<Rightarrow> Inr (db', alert))"

text \<open>A sequence of \<open>create_alert\<close> calls, each with its own uuid and clock reading.\<close>

fun create_alerts ::
  "(ident \<times> datetime \<times> alert_data) list \<Rightarrow> database \<Rightarrow> error + database" where
  "create_alerts [] db = Inr db"
| "create_alerts ((uid, now, d) # calls) db =
     (case create_alert uid now d db of
        Inl e \<Rightarrow> Inl e
      | Inr (db', _) \<Rightarrow> create_alerts calls db')"

text \<open>The unresolved (OPEN) alerts of one patient and alert type.\<close>

definition open_alerts :: "ident \<Rightarrow> AlertType \<Rightarrow> database \<Rightarrow> PatientAlert list" where
  "open_alerts p t db =
     filter (\<lambda>a. al_patient_id a = p \<and> al_alert_type a = t \<and> \<not> al_is_resolved a) (alerts db)"

text \<open>
  \<open>get_active_alerts\<close>: with a truthy clinician id, the join of alerts, patients and
  assignments (one result row per matching assignment); otherwise every unresolved alert.
\<close>

definition get_active_alerts :: "ident option \<Rightarrow> database \<Rightarrow> PatientAlert list" where
  "get_active_alerts clinician_id db =
     (if truthy_str clinician_id then
        order_by_desc al_created_at
          [a. a \<leftarrow> alerts db, p \<leftarrow> patients db, pt_id p = al_patient_id a,
              cp \<leftarrow> assignments db, cp_patient_id cp = pt_id p,
              Some (cp_clinician_id cp) = clinician_id, \<not> al_is_resolved a]
      else
        order_by_desc al_created_at [a. a \<leftarrow> alerts db, \<not> al_is_resolved a])"

text \<open>\<open>session.get(PatientAlert, alert_id)\<close>: the row with that primary key, if any.\<close>

definition get_alert :: "ident \<Rightarrow> database \<Rightarrow> PatientAlert option" where
  "get_alert alert_id db = find (\<lambda>a. al_id a = alert_id) (alerts db)"

text \<open>The UPDATE a commit issues for a changed object: by primary key.\<close>

definition update_alert :: "PatientAlert \<Rightarrow> database \<Rightarrow> database" where
  "update_alert a db =
     db\<lparr>alerts := map (\<lambda>b. if al_id b = al_id a then a else b) (alerts db)\<rparr>"

text \<open>
  \<open>resolve_alert\<close> has no \<open>raise\<close>: it returns the changed alert, or \<open>None\<close> when no row has
  the id. \<open>now\<close> is the value of \<open>datetime.utcnow()\<close>.
\<close>

definition resolve_alert ::
  "datetime \<Rightarrow> ident \<Rightarrow> string \<Rightarrow> string option \<Rightarrow> database
     \<Rightarrow> database \<times> PatientAlert option" where
  "resolve_alert now alert_id resolved_by notes db =
     (case get_alert alert_id db of
        None \<Rightarrow> (db, None)
      | Some alert \<Rightarrow>
          (let alert' = alert\<lparr>al_is_resolved := True,
                              al_resolved_at := Some now,
                              al_resolved_by := Some resolved_by,
                              al_resolution_notes := notes\<rparr>
           in (update_alert alert' db, Some alert')))"


section \<open>Patient lists and dashboard statistics (database/clinical_service.py)\<close>

definition get_patients_by_clinician :: "ident \<Rightarrow> bool \<Rightarrow> database \<Rightarrow> Patient list" where
  "get_patients_by_clinician clinician_id include_inactive db =
     (let statement = [p. p \<leftarrow> patients db, cp \<leftarrow> assignments db,
                          cp_patient_id cp = pt_id p, cp_clinician_id cp = clinician_id];
          statement' = (if \<not> include_inactive
                        then filter (\<lambda>p. pt_status p = ACTIVE) statement
                        else statement)
      in order_by_desc pt_created_at statement')"






section \<open>Reports and summaries\<close>

text \<open>Python's \<open>/\<close> on numbers: a zero divisor raises.\<close>

definition py_truediv :: "real \<Rightarrow> real \<Rightarrow> error + real" where
  "py_truediv a b = (if b = 0 then Inl ZeroDivisionError else Inr (a / b))"

text \<open>\<open>[d.column for d in rows if d.column]\<close>\<close>

definition truthy_values :: "('a \<Rightarrow> real option) \<Rightarrow> 'a list \<Rightarrow> real list" where
  "truthy_values column rows =
     List.map_filter (\<lambda>d. if truthy_num (column d) then column d else None) rows"

text \<open>\<open>sum(values) / len(values) if values else None\<close>\<close>

definition average_or_none :: "real list \<Rightarrow> error + real option" where
  "average_or_none vals =
     (if vals \<noteq> [] then
        (case py_truediv (sum_list vals) (real (length vals)) of
           Inl e \<Rightarrow> Inl e
         | Inr avg \<Rightarrow> Inr (Some avg))
      else Inr None)"

definition get_patient_notes :: "ident \<Rightarrow> nat \<Rightarrow> database \<Rightarrow> ClinicalNote list" where
  "get_patient_notes patient_id limit db =
     take limit (order_by_desc cn_created_at
                   (filter (\<lambda>n. cn_patient_id n = patient_id) (clinical_notes db)))"

record report_summary =
  monitoring_period_days :: int
  data_points :: nat
  rs_symptom_reports :: nat
  average_heart_rate :: "real option"
  average_hrv :: "real option"
  rs_clinical_notes :: nat

record patient_report =
  rp_patient :: Patient
  rp_summary :: report_summary
  rp_recent_notes :: "ClinicalNote list"
  rp_alerts :: "PatientAlert list"

text \<open>
  \<open>generate_patient_report\<close>: \<open>None\<close> is the empty dictionary returned for an unknown
  patient; \<open>now\<close> is the value of \<open>datetime.utcnow()\<close>. The window start
  \<open>datetime.utcnow() - timedelta(days=days)\<close> is computed after the patient is found, and
  raises when \<open>days\<close> is too large for a timedelta or the start leaves datetime's range.
\<close>

definition generate_patient_report ::
  "datetime \<Rightarrow> ident \<Rightarrow> int \<Rightarrow> database \<Rightarrow> error + patient_report option" where
  "generate_patient_report now patient_id days db =
     (case find (\<lambda>p. pt_id p = patient_id) (patients db) of
        None \<Rightarrow> Inr None
      | Some patient \<Rightarrow>
          (case timedelta days of
             Inl e \<Rightarrow> Inl e
           | Inr delta \<Rightarrow>
          (case datetime_sub now delta of
             Inl e \<Rightarrow> Inl e
           | Inr start_date \<Rightarrow>
          (let wearable = filter (\<lambda>d. wd_patient_id d = patient_id \<and> wd_timestamp d \<ge> start_date)
                            (wearable_data db);
               symptoms = filter (\<lambda>r. sr_patient_id r = patient_id
                                      \<and> sr_report_date r \<ge> date_of start_date)
                            (symptom_reports db);
               notes = get_patient_notes patient_id 10 db;
               averages =
                 (if wearable \<noteq> [] then
                    (case average_or_none (truthy_values wd_heart_rate wearable) of
                       Inl e \<Rightarrow> Inl e
                     | Inr avg_heart_rate \<Rightarrow>
                         (case average_or_none (truthy_values wd_hrv_rmssd wearable) of
                            Inl e \<Rightarrow> Inl e
                          | Inr avg_hrv \<Rightarrow> Inr (avg_heart_rate, avg_hrv)))
                  else Inr (None, None))
           in case averages of
                Inl e \<Rightarrow> Inl e
              | Inr (avg_heart_rate, avg_hrv) \<Rightarrow>
                  Inr (Some
                    \<lparr>rp_patient = patient,
                     rp_summary =
                       \<lparr>monitoring_period_days = days,
                        data_points = length wearable,
                        rs_symptom_reports = length symptoms,
                        average_heart_rate = avg_heart_rate,
                        average_hrv = avg_hrv,
                        rs_clinical_notes = length notes\<rparr>,
                     rp_recent_notes = notes,
                     rp_alerts = filter (\<lambda>a. al_patient_id a = patient_id
                                             \<and> al_created_at a \<ge> start_date) (alerts db)\<rparr>)))))"

section \<open>Dashboard health summary (database/database_service.py)\<close>

definition get_patient_wearable_data :: "datetime \<Rightarrow> ident \<Rightarrow> int \<Rightarrow> database \<Rightarrow> WearableData list" where
  "get_patient_wearable_data now patient_id days db =
     (let start_date = now - timedelta_days days
      in order_by_desc wd_timestamp
           (filter (\<lambda>d. wd_patient_id d = patient_id \<and> wd_timestamp d \<ge> start_date)
              (wearable_data db)))"

text \<open>\<open>.limit(1)\<close> then \<open>.first()\<close>\<close>

fun first_row :: "'a list \<Rightarrow> 'a option" where
  "first_row [] = None"
| "first_row (r # _) = Some r"

text \<open>\<open>d.steps or 0\<close>\<close>

fun steps_or_0 :: "int option \<Rightarrow> int" where
  "steps_or_0 None = 0"
| "steps_or_0 (Some n) = n"

record health_summary =
  latest_heart_rate :: "real option"
  latest_symptoms :: "SymptomReport option"
  recent_activity :: real
  data_points_count :: nat

definition get_patient_health_summary ::
  "datetime \<Rightarrow> ident \<Rightarrow> database \<Rightarrow> error + health_summary" where
  "get_patient_health_summary now patient_id db =
     (let latest_hr = first_row (order_by_desc bm_timestamp
                         (filter (\<lambda>b. bm_patient_id b = patient_id
                                      \<and> bm_biomarker_type b = RESTING_HR) (biomarkers db)));
          latest_symptoms = first_row (order_by_desc sr_report_date
                               (filter (\<lambda>r. sr_patient_id r = patient_id) (symptom_reports db)));
          wearable = get_patient_wearable_data now patient_id 7 db
      in case py_truediv (real_of_int (sum_list (map (\<lambda>d. steps_or_0 (wd_steps d)) wearable)))
                (real (max (length wearable) 1)) of
           Inl e \<Rightarrow> Inl e
         | Inr avg_steps \<Rightarrow>
             Inr \<lparr>latest_heart_rate = map_option bm_value latest_hr,
                  latest_symptoms = latest_symptoms,
                  recent_activity = avg_steps,
                  data_points_count = length wearable\<rparr>)"

section \<open>Dashboard status of the resting heart rate (app.py, show_dashboard)\<close>

text \<open>
  \<open>hr_status = "normal" if latest_hr and 60 <= latest_hr <= 100 else "warning"\<close>, on the
  \<open>latest_heart_rate\<close> of the health summary.
\<close>

definition hr_status :: "real option \<Rightarrow> string" where
  "hr_status latest_hr =
     (if truthy_num latest_hr \<and> (case latest_hr of None \<Rightarrow> False | Some v \<Rightarrow> 60 \<le> v \<and> v \<le> 100)
      then ''normal'' else ''warning'')"


section \<open>Session manager (wearable_integration/fitbit_auth.py)\<close>

text \<open>
  The token dictionary of the provider: the keys the code reads, and the remaining keys.
  A dictionary is truthy when it has a key. Times are \<open>time.time()\<close> seconds.
\<close>

record token =
  tk_access_token :: "string option"
  tk_refresh_token :: "string option"
  tk_expires_in :: "real option"
  tk_other :: "(string \<times> string) list"

definition truthy_token :: "token option \<Rightarrow> bool" where
  "truthy_token t =
     (case t of
        None \<Rightarrow> False
      | Some d \<Rightarrow> tk_access_token d \<noteq> None \<or> tk_refresh_token d \<noteq> None
                  \<or> tk_expires_in d \<noteq> None \<or> tk_other d \<noteq> [])"

text \<open>The keys of \<open>st.session_state\<close> the session manager owns; \<open>None\<close> is an absent key.\<close>

record session_state =
  fitbit_token :: "token option"
  token_expires_at :: "real option"
  fitbit_connected :: "bool option"

text \<open>
  The outcome of an HTTP request: a response with its status code and parsed body, or an
  exception (network failure, or a body that is not JSON), which each caller catches.
\<close>

datatype 'a http_outcome = Response nat 'a | RequestException

text \<open>What the functions show in the user interface (\<open>st.error\<close>, \<open>st.success\<close>).\<close>

datatype ui_message =
  TokenRefreshFailed nat | TokenRefreshError
  | NotAuthenticated | AuthenticationExpired | RateLimitExceeded | ApiError nat | NetworkError
  | HeartRateParseError
  | SyncSuccess nat | SyncError error

text \<open>
  \<open>refresh_token\<close>: \<open>post\<close> is the outcome of the request to the token endpoint, \<open>now\<close> the
  value of \<open>time.time()\<close> when the new expiry is stored.
\<close>

definition refresh_token ::
  "real \<Rightarrow> token http_outcome \<Rightarrow> session_state
     \<Rightarrow> session_state \<times> token option \<times> ui_message list" where
  "refresh_token now post st =
     (case fitbit_token st of
        None \<Rightarrow> (st, None, [])
      | Some token \<Rightarrow>
          if \<not> truthy_str (tk_refresh_token token) then (st, None, [])
          else
            (case post of
               Response status_code new_token \<Rightarrow>
                 if status_code = 200 then
                   (st\<lparr>fitbit_token := Some new_token,
                       token_expires_at :=
                         Some (now + (case tk_expires_in new_token of
                                        None \<Rightarrow> 28800 | Some e \<Rightarrow> e))\<rparr>,
                    Some new_token, [])
                 else (st, None, [TokenRefreshFailed status_code])
             | RequestException \<Rightarrow> (st, None, [TokenRefreshError])))"

text \<open>
  \<open>get_valid_token\<close>: \<open>now\<close> is \<open>time.time()\<close> at the expiry test, \<open>now_r\<close> the later reading
  inside \<open>refresh_token\<close>. The last line of the refreshing branch is
  \<open>return self.refresh_token() or token\<close>.
\<close>

definition get_valid_token ::
  "real \<Rightarrow> real \<Rightarrow> token http_outcome \<Rightarrow> session_state
     \<Rightarrow> session_state \<times> token option \<times> ui_message list" where
  "get_valid_token now now_r post st =
     (case fitbit_token st of
        None \<Rightarrow> (st, None, [])
      | Some token \<Rightarrow>
          (let expires_at = (case token_expires_at st of None \<Rightarrow> 0 | Some e \<Rightarrow> e) in
           if now > expires_at - 300 then
             (case refresh_token now_r post st of
                (st', refreshed, msgs) \<Rightarrow>
                  (st', (if truthy_token refreshed then refreshed else Some token), msgs))
           else (st, Some token, [])))"

text \<open>\<open>get_headers\<close>: the bearer header, \<open>None\<close> without a token; \<open>token['access_token']\<close> raises
  on a token without that key.\<close>

definition get_headers ::
  "real \<Rightarrow> real \<Rightarrow> token http_outcome \<Rightarrow> session_state
     \<Rightarrow> session_state \<times> (error + string option) \<times> ui_message list" where
  "get_headers now now_r post st =
     (case get_valid_token now now_r post st of
        (st', tok, msgs) \<Rightarrow>
          (st',
           (if \<not> truthy_token tok then Inr None
            else (case tok of
                    None \<Rightarrow> Inr None
                  | Some t \<Rightarrow> (case tk_access_token t of
                                 None \<Rightarrow> Inl KeyError
                               | Some a \<Rightarrow> Inr (Some (''Bearer '' @ a))))),
           msgs))"

section \<open>Provider client (wearable_integration/fitbit_data.py)\<close>












section \<open>Sync (app.py, sync_real_fitbit_data)\<close>
















section \<open>Pipeline (pipelines/enhanced_wearable_pipeline.py)\<close>








section \<open>Demo data (database/demo_data.py)\<close>

text \<open>
  The last loop of \<open>create_demo_clinical_data\<close>: one unresolved \<open>HIGH_HEART_RATE\<close> alert for
  each of the first two patients, added without looking at the alerts already stored, and
  one commit for both. \<open>uuid4 i\<close> and \<open>utcnow i\<close> are the values drawn for the i-th alert.
\<close>

definition demo_alert :: "ident \<Rightarrow> datetime \<Rightarrow> Patient \<Rightarrow> PatientAlert" where
  "demo_alert uid now patient =
     \<lparr>al_id = uid, al_created_at = now, al_patient_id = pt_id patient,
      al_alert_type = HIGH_HEART_RATE, al_severity = ''high'',
      al_title = ''Elevated Resting Heart Rate'',
      al_description =
        ''Patient's average resting heart rate has increased by 15% over the past week.'',
      al_is_resolved = False, al_resolved_at = None, al_resolved_by = None,
      al_resolution_notes = None, al_trigger_value = Some 85,
      al_normal_range = Some ''60-100 bpm'', al_relevant_data_ids = None\<rparr>"

fun insert_alerts :: "PatientAlert list \<Rightarrow> database \<Rightarrow> error + database" where
  "insert_alerts [] db = Inr db"
| "insert_alerts (a # rest) db =
     (case insert_alert a db of
        Inl e \<Rightarrow> Inl e
      | Inr db' \<Rightarrow> insert_alerts rest db')"

definition create_demo_alerts ::
  "(nat \<Rightarrow> ident) \<Rightarrow> (nat \<Rightarrow> datetime) \<Rightarrow> database \<Rightarrow> error + database" where
  "create_demo_alerts uuid4 utcnow db =
     insert_alerts
       (map (\<lambda>(i, patient). demo_alert (uuid4 i) (utcnow i) patient)
          (enumerate 0 (take 2 (patients db))))
       db"

section \<open>Concrete inputs\<close>



definition ex_alert_data :: alert_data where
  "ex_alert_data =
     \<lparr>ad_id = None, ad_created_at = None, ad_patient_id = ''p1'',
      ad_alert_type = HIGH_HEART_RATE, ad_severity = Some ''critical'',
      ad_title = ''High heart rate'', ad_description = ''Heart rate above range'',
      ad_is_resolved = None, ad_resolved_at = None, ad_resolved_by = None,
      ad_resolution_notes = None, ad_trigger_value = Some 130,
      ad_normal_range = Some ''60-100'', ad_relevant_data_ids = None\<rparr>"

definition ex_patient :: Patient where
  "ex_patient = \<lparr>pt_id = ''p1'', pt_created_at = 0, pt_first_name = ''Maria'',
     pt_last_name = ''Garcia'', pt_status = ACTIVE, pt_risk_level = Some ''high''\<rparr>"

definition ex_patient_high_risk :: Patient where
  "ex_patient_high_risk = \<lparr>pt_id = ''p2'', pt_created_at = 1, pt_first_name = ''David'',
     pt_last_name = ''Chen'', pt_status = HIGH_RISK, pt_risk_level = Some ''high''\<rparr>"

definition ex_clinic_db :: database where
  "ex_clinic_db =
     empty_db\<lparr>patients := [ex_patient, ex_patient_high_risk],
              assignments := [\<lparr>cp_clinician_id = ''c1'', cp_patient_id = ''p1'', cp_is_primary = True\<rparr>,
                              \<lparr>cp_clinician_id = ''c1'', cp_patient_id = ''p2'', cp_is_primary = True\<rparr>],
              alerts := [new_alert ''a1'' 5 ex_alert_data]\<rparr>"

definition ex_token :: token where
  "ex_token = \<lparr>tk_access_token = Some ''stale'', tk_refresh_token = Some ''r1'',
     tk_expires_in = Some 28800, tk_other = []\<rparr>"

definition ex_new_token :: token where
  "ex_new_token = \<lparr>tk_access_token = Some ''fresh'', tk_refresh_token = Some ''r2'',
     tk_expires_in = Some 3600, tk_other = []\<rparr>"

definition ex_session :: session_state where
  "ex_session = \<lparr>fitbit_token = Some ex_token, token_expires_at = Some 1000,
     fitbit_connected = Some True\<rparr>"






text \<open>Noon of 2026-11-03, day 20760 from 1970-01-01.\<close>

definition ex_now :: datetime where
  "ex_now = 20760 * day_us + 12 * 3600000000"

text \<open>A store whose only alert was resolved by \<open>alice\<close> at time 10.\<close>

definition ex_resolved_db :: database where
  "ex_resolved_db =
     empty_db\<lparr>alerts := [(new_alert ''a1'' 5 ex_alert_data)
                            \<lparr>al_is_resolved := True, al_resolved_at := Some 10,
                             al_resolved_by := Some ''alice'',
                             al_resolution_notes := Some ''first''\<rparr>]\<rparr>"



section \<open>Shared facts\<close>

lemma set_order_by_desc: "set (order_by_desc key rows) = set rows"
  by (simp add: order_by_desc_def)

lemma length_order_by_desc: "length (order_by_desc key rows) = length rows"
  by (simp add: order_by_desc_def)

section \<open>The dashboard's heart-rate status\<close>

text \<open>
  C4, as stated, fails on the code: the only classification of a value in the source is the
  two-way test of the dashboard, which calls 45 bpm "warning" where the claim says
  "critical", and calls 400 bpm, a value in no configured interval, "warning" where the
  claim says "unclassified".
\<close>

theorem hr_status_counterexample:
  "hr_status (Some 45) = ''warning'' \<and> hr_status (Some 400) = ''warning''"
  by (simp add: hr_status_def)

text \<open>
  C4, amended: the status is "normal" exactly for a value present with 60 \<le> value \<le> 100
  and "warning" in every other case (absent, zero, below 60, above 100); there is no
  "critical" and no "unclassified" result. So 85 is normal and 55, 110 and an absent value
  are warning.
\<close>

theorem hr_status_two_tiers:
  "hr_status latest_hr =
     (if \<exists>v. latest_hr = Some v \<and> 60 \<le> v \<and> v \<le> 100 then ''normal'' else ''warning'')
   \<and> hr_status (Some 85) = ''normal'' \<and> hr_status (Some 55) = ''warning''
   \<and> hr_status (Some 110) = ''warning'' \<and> hr_status None = ''warning''"
  by (cases latest_hr) (auto simp: hr_status_def)

theorem hr_status_two_tiers_witness:
  "hr_status (Some 72) = ''normal'' \<and> hr_status (Some 45) \<noteq> ''critical''"
  using hr_status_two_tiers [of "Some 72"] hr_status_two_tiers [of "Some 45"] by simp

section \<open>The token near its expiry\<close>

text \<open>
  C3, as stated, fails on the code: with the stored expiry at 1000 s, a call at 900 s is
  inside the five-minute buffer; the refresh is answered 400, and the call returns the
  stored token and leaves the session as it was.
\<close>

theorem get_valid_token_counterexample:
  "get_valid_token 900 901 (Response 400 ex_new_token) ex_session
     = (ex_session, Some ex_token, [TokenRefreshFailed 400])"
  by (simp add: get_valid_token_def refresh_token_def ex_session_def ex_token_def truthy_token_def)

lemma refresh_token_failure:
  assumes "fitbit_token st = Some token"
    and "\<not> truthy_str (tk_refresh_token token) \<or> (\<forall>new. post \<noteq> Response 200 new)"
  shows "\<exists>msgs. refresh_token now_r post st = (st, None, msgs)"
  using assms by (cases post) (auto simp: refresh_token_def)

text \<open>
  C3, amended: for a session holding a token, when the current time is later than the stored
  expiry minus 300 seconds, \<open>get_valid_token\<close> first tries a refresh. A refresh answered 200
  with a non-empty token stores that token with its new expiry and returns it. When the
  refresh cannot be made (no refresh token) or is not answered 200, no error is raised: the
  call returns the stored token and the session is unchanged.
\<close>

theorem get_valid_token_near_expiry:
  assumes tok: "fitbit_token st = Some token"
    and near: "now > (case token_expires_at st of None \<Rightarrow> 0 | Some e \<Rightarrow> e) - 300"
  shows "(truthy_str (tk_refresh_token token) \<and> post = Response 200 new \<and> truthy_token (Some new)
            \<longrightarrow> get_valid_token now now_r post st
                  = (st\<lparr>fitbit_token := Some new,
                        token_expires_at :=
                          Some (now_r + (case tk_expires_in new of None \<Rightarrow> 28800 | Some e \<Rightarrow> e))\<rparr>,
                     Some new, []))
       \<and> (\<not> truthy_str (tk_refresh_token token) \<or> (\<forall>new'. post \<noteq> Response 200 new')
            \<longrightarrow> (\<exists>msgs. get_valid_token now now_r post st = (st, Some token, msgs)))"
proof (intro conjI impI)
  assume "truthy_str (tk_refresh_token token) \<and> post = Response 200 new \<and> truthy_token (Some new)"
  then show "get_valid_token now now_r post st
                  = (st\<lparr>fitbit_token := Some new,
                        token_expires_at :=
                          Some (now_r + (case tk_expires_in new of None \<Rightarrow> 28800 | Some e \<Rightarrow> e))\<rparr>,
                     Some new, [])"
    using tok near by (simp add: get_valid_token_def refresh_token_def)
next
  assume "\<not> truthy_str (tk_refresh_token token) \<or> (\<forall>new'. post \<noteq> Response 200 new')"
  from refresh_token_failure [OF tok this]
  obtain msgs where "refresh_token now_r post st = (st, None, msgs)" by blast
  then show "\<exists>msgs. get_valid_token now now_r post st = (st, Some token, msgs)"
    using tok near by (simp add: get_valid_token_def truthy_token_def)
qed

theorem get_valid_token_near_expiry_witness:
  "get_valid_token 900 901 (Response 200 ex_new_token) ex_session
     = (ex_session\<lparr>fitbit_token := Some ex_new_token, token_expires_at := Some 4501\<rparr>,
        Some ex_new_token, [])
   \<and> fst (get_valid_token 900 901 RequestException ex_session) = ex_session
   \<and> fst (snd (get_valid_token 900 901 RequestException ex_session)) = Some ex_token"
proof -
  have tok: "fitbit_token ex_session = Some ex_token" by (simp add: ex_session_def)
  have near: "(900::real) > (case token_expires_at ex_session of None \<Rightarrow> 0 | Some e \<Rightarrow> e) - 300"
    by (simp add: ex_session_def)
  have a: "truthy_str (tk_refresh_token ex_token) \<and> truthy_token (Some ex_new_token)"
    by (simp add: ex_token_def ex_new_token_def truthy_token_def)
  from get_valid_token_near_expiry [OF tok near, of "Response 200 ex_new_token" ex_new_token 901]
       get_valid_token_near_expiry [OF tok near, of RequestException ex_new_token 901] a
  show ?thesis by (auto simp: ex_new_token_def)
qed

section \<open>Alert creation\<close>

text \<open>
  C1, as stated, fails on the code: two \<open>create_alert\<close> calls for the same patient and alert
  type, on an empty store, both succeed and leave two unresolved alerts of that pair.
\<close>

theorem create_alert_counterexample:
  "map_sum id (\<lambda>db. length (open_alerts ''p1'' HIGH_HEART_RATE db))
     (create_alerts [(''a1'', 5, ex_alert_data), (''a2'', 6, ex_alert_data)] empty_db) = Inr 2"
  by (simp add: Let_def create_alert_def insert_alert_def new_alert_def ex_alert_data_def empty_db_def
        open_alerts_def)

lemma create_alert_open_alerts:
  assumes "create_alert uid now d db = Inr (db', a)"
  shows "length (open_alerts p t db')
         = length (open_alerts p t db)
           + (if ad_patient_id d = p \<and> ad_alert_type d = t \<and> ad_is_resolved d \<noteq> Some True
              then 1 else 0)"
  using assms
  by (auto simp: create_alert_def insert_alert_def new_alert_def open_alerts_def Let_def
      split: if_splits option.splits)

text \<open>Calls whose primary keys are new and pairwise different all succeed.\<close>

lemma create_alerts_fresh:
  assumes "distinct (map (\<lambda>(uid, now, d). case ad_id d of None \<Rightarrow> uid | Some i \<Rightarrow> i) calls)"
    and "\<forall>c \<in> set calls. (case c of (uid, now, d) \<Rightarrow> case ad_id d of None \<Rightarrow> uid | Some i \<Rightarrow> i)
            \<notin> al_id ` set (alerts db)"
  shows "\<exists>db'. create_alerts calls db = Inr db'"
  using assms
proof (induction calls arbitrary: db)
  case Nil
  then show ?case by simp
next
  case (Cons c calls)
  obtain uid now d where c: "c = (uid, now, d)" by (cases c)
  let ?a = "new_alert uid now d"
  let ?db1 = "db\<lparr>alerts := alerts db @ [?a]\<rparr>"
  have id: "al_id ?a = (case ad_id d of None \<Rightarrow> uid | Some i \<Rightarrow> i)" by (simp add: new_alert_def)
  have step: "create_alert uid now d db = Inr (?db1, ?a)"
    using Cons.prems(2) c id by (auto simp: Let_def create_alert_def insert_alert_def)
  have "\<exists>db'. create_alerts calls ?db1 = Inr db'"
  proof (rule Cons.IH)
    show "distinct (map (\<lambda>(uid, now, d). case ad_id d of None \<Rightarrow> uid | Some i \<Rightarrow> i) calls)"
      using Cons.prems(1) by simp
    show "\<forall>c \<in> set calls. (case c of (uid, now, d) \<Rightarrow> case ad_id d of None \<Rightarrow> uid | Some i \<Rightarrow> i)
            \<notin> al_id ` set (alerts ?db1)"
      using Cons.prems c id by (auto simp: image_iff)
  qed
  then show ?case using step c by simp
qed

text \<open>
  C1, amended: \<open>create_alert\<close> does not look for an existing alert. After any sequence of
  successful \<open>create_alert\<close> calls, the number of unresolved alerts of a patient and alert
  type is the number before plus the number of calls made for that pair whose dictionary
  does not set \<open>is_resolved\<close> to true: every such call adds one more OPEN alert.
\<close>

theorem create_alerts_open_alerts:
  assumes "create_alerts calls db = Inr db'"
  shows "length (open_alerts p t db')
         = length (open_alerts p t db)
           + length (filter (\<lambda>(uid, now, d). ad_patient_id d = p \<and> ad_alert_type d = t
                                            \<and> ad_is_resolved d \<noteq> Some True) calls)"
  using assms
proof (induction calls arbitrary: db)
  case Nil
  then show ?case by simp
next
  case (Cons c calls)
  obtain uid now d where c: "c = (uid, now, d)" by (cases c)
  from Cons.prems c obtain db1 a where
    step: "create_alert uid now d db = Inr (db1, a)" and rest: "create_alerts calls db1 = Inr db'"
    by (auto split: sum.splits)
  from Cons.IH [OF rest] create_alert_open_alerts [OF step, of p t] c
  show ?case by simp
qed

theorem create_alerts_open_alerts_witness:
  "create_alerts [(''a1'', 5, ex_alert_data), (''a2'', 6, ex_alert_data)] empty_db
     = Inr (empty_db\<lparr>alerts := [new_alert ''a1'' 5 ex_alert_data, new_alert ''a2'' 6 ex_alert_data]\<rparr>)
   \<and> length (open_alerts ''p1'' HIGH_HEART_RATE
       (empty_db\<lparr>alerts := [new_alert ''a1'' 5 ex_alert_data, new_alert ''a2'' 6 ex_alert_data]\<rparr>)) = 2"
proof -
  have run: "create_alerts [(''a1'', 5, ex_alert_data), (''a2'', 6, ex_alert_data)] empty_db
     = Inr (empty_db\<lparr>alerts := [new_alert ''a1'' 5 ex_alert_data, new_alert ''a2'' 6 ex_alert_data]\<rparr>)"
    by (simp add: Let_def create_alert_def insert_alert_def new_alert_def ex_alert_data_def empty_db_def)
  from create_alerts_open_alerts [OF run, of "''p1''" HIGH_HEART_RATE] run
  show ?thesis by (simp add: open_alerts_def empty_db_def ex_alert_data_def)
qed

section \<open>Alert resolution\<close>

lemma ex_resolved_alerts:
  "alerts ex_resolved_db =
     [(new_alert ''a1'' 5 ex_alert_data)
        \<lparr>al_is_resolved := True, al_resolved_at := Some 10,
         al_resolved_by := Some ''alice'', al_resolution_notes := Some ''first''\<rparr>]"
  by (simp add: ex_resolved_db_def empty_db_def)

lemma ex_new_alert_id: "al_id (new_alert ''a1'' 5 ex_alert_data) = ''a1''"
  by (simp add: new_alert_def ex_alert_data_def)

text \<open>
  C2, as stated, fails on the code: resolving an alert that \<open>alice\<close> already resolved
  succeeds and replaces her name and notes by those of the second call, and resolving an id
  that is not in the store returns \<open>None\<close> with the store unchanged instead of failing.
\<close>

theorem resolve_alert_counterexample:
  "map_option al_resolved_by (snd (resolve_alert 20 ''a1'' ''bob'' (Some ''second'') ex_resolved_db))
     = Some (Some ''bob'')
   \<and> map al_resolved_by (alerts (fst (resolve_alert 20 ''a1'' ''bob'' (Some ''second'') ex_resolved_db)))
     = [Some ''bob'']
   \<and> map al_resolution_notes (alerts (fst (resolve_alert 20 ''a1'' ''bob'' (Some ''second'') ex_resolved_db)))
     = [Some ''second'']
   \<and> resolve_alert 20 ''a9'' ''bob'' None ex_resolved_db = (ex_resolved_db, None)"
  by (simp add: resolve_alert_def get_alert_def update_alert_def ex_resolved_alerts
        ex_new_alert_id Let_def)

lemma find_replaced:
  assumes "find (\<lambda>a. al_id a = i) xs = Some x" and "al_id y = i"
  shows "find (\<lambda>a. al_id a = i) (map (\<lambda>b. if al_id b = i then y else b) xs) = Some y"
  using assms by (induction xs) (auto split: if_splits)

lemma get_alert_None: "get_alert i db = None \<longleftrightarrow> i \<notin> al_id ` set (alerts db)"
  by (auto simp: get_alert_def find_None_iff)

lemma get_alert_Some: "get_alert i db = Some a \<Longrightarrow> al_id a = i \<and> a \<in> set (alerts db)"
  by (auto simp: get_alert_def find_Some_iff)

text \<open>
  C2, amended: \<open>resolve_alert\<close> never fails. For an id that no alert has, it returns \<open>None\<close>
  and leaves the store unchanged. For the id of a stored alert, resolved already or not, it
  stores and returns that alert with \<open>is_resolved\<close> true and with \<open>resolved_at\<close>,
  \<open>resolved_by\<close> and \<open>resolution_notes\<close> set to the values of this call, replacing what was
  there.
\<close>

theorem resolve_alert_overwrites:
  "(alert_id \<notin> al_id ` set (alerts db)
      \<longrightarrow> resolve_alert now alert_id resolved_by notes db = (db, None))
   \<and> (alert_id \<in> al_id ` set (alerts db)
      \<longrightarrow> (\<exists>a'. snd (resolve_alert now alert_id resolved_by notes db) = Some a'
                \<and> get_alert alert_id (fst (resolve_alert now alert_id resolved_by notes db)) = Some a'
                \<and> al_id a' = alert_id \<and> al_is_resolved a'
                \<and> al_resolved_at a' = Some now \<and> al_resolved_by a' = Some resolved_by
                \<and> al_resolution_notes a' = notes))"
proof (intro conjI impI)
  assume "alert_id \<notin> al_id ` set (alerts db)"
  then have "get_alert alert_id db = None" by (simp add: get_alert_None)
  then show "resolve_alert now alert_id resolved_by notes db = (db, None)"
    by (simp add: resolve_alert_def)
next
  assume "alert_id \<in> al_id ` set (alerts db)"
  then obtain a where a: "get_alert alert_id db = Some a"
    using get_alert_None [of alert_id db] by (cases "get_alert alert_id db") auto
  then have ida: "al_id a = alert_id" by (simp add: get_alert_Some)
  let ?a' = "a\<lparr>al_is_resolved := True, al_resolved_at := Some now,
                al_resolved_by := Some resolved_by, al_resolution_notes := notes\<rparr>"
  have r: "resolve_alert now alert_id resolved_by notes db = (update_alert ?a' db, Some ?a')"
    using a by (simp add: resolve_alert_def Let_def)
  have "get_alert alert_id (update_alert ?a' db) = Some ?a'"
    using find_replaced [of alert_id "alerts db" a ?a'] a ida
    by (simp add: get_alert_def update_alert_def)
  then show "\<exists>a'. snd (resolve_alert now alert_id resolved_by notes db) = Some a'
                \<and> get_alert alert_id (fst (resolve_alert now alert_id resolved_by notes db)) = Some a'
                \<and> al_id a' = alert_id \<and> al_is_resolved a'
                \<and> al_resolved_at a' = Some now \<and> al_resolved_by a' = Some resolved_by
                \<and> al_resolution_notes a' = notes"
    using r ida by simp
qed

theorem resolve_alert_overwrites_witness:
  "map_option (\<lambda>a. (al_is_resolved a, al_resolved_at a, al_resolved_by a, al_resolution_notes a))
     (snd (resolve_alert 20 ''a1'' ''bob'' (Some ''second'') ex_resolved_db))
     = Some (True, Some 20, Some ''bob'', Some ''second'')
   \<and> resolve_alert 20 ''a9'' ''bob'' None ex_resolved_db = (ex_resolved_db, None)"
proof -
  have "''a1'' \<in> al_id ` set (alerts ex_resolved_db)" "''a9'' \<notin> al_id ` set (alerts ex_resolved_db)"
    by (simp_all add: ex_resolved_alerts ex_new_alert_id)
  with resolve_alert_overwrites [of "''a1''" ex_resolved_db 20 "''bob''" "Some ''second''"]
       resolve_alert_overwrites [of "''a9''" ex_resolved_db 20 "''bob''" None]
  show ?thesis by auto
qed

section \<open>Resolved alerts are not active\<close>

lemma get_active_alerts_unresolved:
  "a \<in> set (get_active_alerts clinician_id db) \<Longrightarrow> a \<in> set (alerts db) \<and> \<not> al_is_resolved a"
  by (auto simp: get_active_alerts_def set_order_by_desc split: if_splits)

lemma resolve_alert_resolved:
  assumes "b \<in> set (alerts (fst (resolve_alert now i resolved_by notes db)))" and "al_id b = i"
  shows "al_is_resolved b"
proof (cases "get_alert i db")
  case None
  then show ?thesis using assms get_alert_None [of i db] by (auto simp: resolve_alert_def)
next
  case (Some a)
  then have "al_id a = i" by (simp add: get_alert_Some)
  then show ?thesis using assms Some
    by (auto simp: resolve_alert_def update_alert_def Let_def split: if_splits)
qed

text \<open>
  C9: after \<open>resolve_alert\<close> for an alert id, no alert with that id is in the result of
  \<open>get_active_alerts\<close>, for any clinician and for the query without a clinician.
\<close>

theorem resolved_alert_not_active:
  "\<forall>a \<in> set (get_active_alerts clinician_id (fst (resolve_alert now alert_id resolved_by notes db))).
     al_id a \<noteq> alert_id"
proof
  fix a
  assume a: "a \<in> set (get_active_alerts clinician_id
                 (fst (resolve_alert now alert_id resolved_by notes db)))"
  then have "a \<in> set (alerts (fst (resolve_alert now alert_id resolved_by notes db)))"
    and "\<not> al_is_resolved a"
    by (simp_all add: get_active_alerts_unresolved)
  then show "al_id a \<noteq> alert_id"
    using resolve_alert_resolved by blast
qed

lemma ex_clinic_active:
  "map al_id (get_active_alerts (Some ''c1'') ex_clinic_db) = [''a1'']"
  "map al_id (get_active_alerts None ex_clinic_db) = [''a1'']"
  by (simp_all add: get_active_alerts_def order_by_desc_def ex_clinic_db_def empty_db_def
        new_alert_def ex_alert_data_def ex_patient_def ex_patient_high_risk_def)

theorem resolved_alert_not_active_witness:
  "map al_id (get_active_alerts (Some ''c1'') ex_clinic_db) = [''a1'']
   \<and> map al_id (get_active_alerts None ex_clinic_db) = [''a1'']
   \<and> ''a1'' \<notin> set (map al_id (get_active_alerts (Some ''c1'')
                  (fst (resolve_alert 20 ''a1'' ''c1'' (Some ''seen'') ex_clinic_db))))
   \<and> ''a1'' \<notin> set (map al_id (get_active_alerts None
                  (fst (resolve_alert 20 ''a1'' ''c1'' (Some ''seen'') ex_clinic_db))))"
  using ex_clinic_active
    resolved_alert_not_active [of "Some ''c1''" 20 "''a1''" "''c1''" "Some ''seen''" ex_clinic_db]
    resolved_alert_not_active [of None 20 "''a1''" "''c1''" "Some ''seen''" ex_clinic_db]
  by auto

section \<open>The default patient list\<close>




lemma ex_clinic_patients:
  "map pt_id (get_patients_by_clinician ''c1'' True ex_clinic_db) = [''p2'', ''p1'']"
  by (simp add: get_patients_by_clinician_def order_by_desc_def ex_clinic_db_def empty_db_def
        ex_patient_def ex_patient_high_risk_def Let_def)



section \<open>Reports on missing data\<close>

lemma average_or_none_returns: "\<exists>r. average_or_none vals = Inr r"
  by (simp add: average_or_none_def py_truediv_def)

text \<open>The window start of a report is representable.\<close>

lemma window_start:
  assumes "\<bar>days\<bar> \<le> 999999999"
    and "datetime_min \<le> now - days * day_us" and "now - days * day_us \<le> datetime_max"
  shows "timedelta days = Inr (days * day_us)"
    and "datetime_sub now (days * day_us) = Inr (now - days * day_us)"
  using assms by (simp_all add: timedelta_def datetime_sub_def)

lemma window_start_overflow:
  assumes "\<not> (\<bar>days\<bar> \<le> 999999999
              \<and> datetime_min \<le> now - days * day_us \<and> now - days * day_us \<le> datetime_max)"
  shows "timedelta days = Inl OverflowError
         \<or> (timedelta days = Inr (days * day_us)
            \<and> datetime_sub now (days * day_us) = Inl OverflowError)"
  using assms by (auto simp: timedelta_def datetime_sub_def)

lemma generate_patient_report_returns:
  assumes "\<bar>days\<bar> \<le> 999999999"
    and "datetime_min \<le> now - days * day_us" and "now - days * day_us \<le> datetime_max"
  shows "\<exists>r. generate_patient_report now patient_id days db = Inr r"
proof (cases "find (\<lambda>p. pt_id p = patient_id) (patients db)")
  case None
  then show ?thesis by (simp add: generate_patient_report_def)
next
  case (Some patient)
  let ?w = "filter (\<lambda>d. wd_patient_id d = patient_id
                        \<and> wd_timestamp d \<ge> now - days * day_us) (wearable_data db)"
  obtain a where a: "average_or_none (truthy_values wd_heart_rate ?w) = Inr a"
    using average_or_none_returns by blast
  obtain b where b: "average_or_none (truthy_values wd_hrv_rmssd ?w) = Inr b"
    using average_or_none_returns by blast
  show ?thesis using Some a b window_start [OF assms]
    by (simp add: generate_patient_report_def Let_def)
qed

lemma generate_patient_report_overflow:
  assumes "find (\<lambda>p. pt_id p = patient_id) (patients db) = Some patient"
    and "\<not> (\<bar>days\<bar> \<le> 999999999
              \<and> datetime_min \<le> now - days * day_us \<and> now - days * day_us \<le> datetime_max)"
  shows "generate_patient_report now patient_id days db = Inl OverflowError"
  using assms(1) window_start_overflow [OF assms(2)]
  by (auto simp: generate_patient_report_def)

lemma generate_patient_report_no_zero_division:
  "generate_patient_report now patient_id days db \<noteq> Inl ZeroDivisionError"
proof (cases "\<bar>days\<bar> \<le> 999999999
              \<and> datetime_min \<le> now - days * day_us \<and> now - days * day_us \<le> datetime_max")
  case True
  then show ?thesis
    using generate_patient_report_returns [of days now patient_id db] by auto
next
  case False
  show ?thesis
  proof (cases "find (\<lambda>p. pt_id p = patient_id) (patients db)")
    case None
    then show ?thesis by (simp add: generate_patient_report_def)
  next
    case (Some patient)
    from generate_patient_report_overflow [OF Some False] show ?thesis by simp
  qed
qed

lemma get_patient_health_summary_returns:
  "\<exists>h. get_patient_health_summary now patient_id db = Inr h"
  by (simp add: get_patient_health_summary_def py_truediv_def Let_def)

lemma generate_patient_report_no_data:
  assumes "find (\<lambda>p. pt_id p = patient_id) (patients db) = Some patient"
    and "\<bar>days\<bar> \<le> 999999999"
    and "datetime_min \<le> now - days * day_us" and "now - days * day_us \<le> datetime_max"
    and "\<forall>d \<in> set (wearable_data db).
           \<not> (wd_patient_id d = patient_id \<and> wd_timestamp d \<ge> now - days * day_us)"
  shows "\<exists>r. generate_patient_report now patient_id days db = Inr (Some r)
            \<and> data_points (rp_summary r) = 0
            \<and> average_heart_rate (rp_summary r) = None
            \<and> average_hrv (rp_summary r) = None"
proof -
  have "filter (\<lambda>d. wd_patient_id d = patient_id
                        \<and> wd_timestamp d \<ge> now - days * day_us) (wearable_data db) = []"
    using assms(5) by (simp add: filter_empty_conv)
  then show ?thesis using assms(1) window_start [OF assms(2,3,4)]
    by (simp add: generate_patient_report_def Let_def)
qed

lemma get_patient_health_summary_no_data:
  assumes "\<forall>d \<in> set (wearable_data db).
           \<not> (wd_patient_id d = patient_id \<and> wd_timestamp d \<ge> now - timedelta_days 7)"
  shows "\<exists>h. get_patient_health_summary now patient_id db = Inr h
            \<and> recent_activity h = 0 \<and> data_points_count h = 0"
proof -
  have "filter (\<lambda>d. wd_patient_id d = patient_id
                        \<and> wd_timestamp d \<ge> now - timedelta_days 7) (wearable_data db) = []"
    using assms by (simp add: filter_empty_conv)
  then have "get_patient_wearable_data now patient_id 7 db = []"
    by (simp add: get_patient_wearable_data_def order_by_desc_def Let_def)
  then show ?thesis
    by (simp add: get_patient_health_summary_def py_truediv_def Let_def)
qed

lemma get_patient_health_summary_no_biomarker:
  assumes "\<forall>b \<in> set (biomarkers db).
           \<not> (bm_patient_id b = patient_id \<and> bm_biomarker_type b = RESTING_HR)"
  shows "\<exists>h. get_patient_health_summary now patient_id db = Inr h \<and> latest_heart_rate h = None"
proof -
  have "filter (\<lambda>b. bm_patient_id b = patient_id \<and> bm_biomarker_type b = RESTING_HR)
          (biomarkers db) = []"
    using assms by (simp add: filter_empty_conv)
  then show ?thesis
    by (simp add: get_patient_health_summary_def py_truediv_def Let_def order_by_desc_def)
qed

lemma ex_clinic_tables:
  "find (\<lambda>p. pt_id p = ''p1'') (patients ex_clinic_db) = Some ex_patient"
  "find (\<lambda>p. pt_id p = ''p9'') (patients ex_clinic_db) = None"
  "wearable_data ex_clinic_db = []" "biomarkers ex_clinic_db = []"
  by (simp_all add: ex_clinic_db_def empty_db_def ex_patient_def ex_patient_high_risk_def)

text \<open>
  C8, as stated, fails on the code: for a patient of the store, on 2026-11-03, a report
  over a window of 3000000 days raises \<open>OverflowError\<close>, since the window would start
  before the first datetime.
\<close>

theorem report_window_counterexample:
  "generate_patient_report ex_now ''p1'' 3000000 ex_clinic_db = Inl OverflowError"
  by (simp add: generate_patient_report_def ex_clinic_tables timedelta_def datetime_sub_def
        datetime_min_def datetime_max_def day_us_def ex_now_def)

text \<open>
  C8, amended: neither operation ever divides by zero, and the dashboard health summary
  returns for every patient and store. The patient report returns for every window whose
  start is a datetime, that is when \<open>days\<close> has a magnitude of at most 999999999 and
  \<open>now - days\<close> lies between \<open>datetime.min\<close> and \<open>datetime.max\<close>, and for an unknown patient
  it is the empty dictionary whatever the window is; for a known patient and a window whose
  start is not a datetime it raises \<open>OverflowError\<close>. With no wearable row of the patient in
  such a window the report has zero data points and \<open>None\<close> for both averages, and with no
  row in the last seven days the health summary has zero data points and an activity of 0;
  with no resting-heart-rate biomarker its latest heart rate is \<open>None\<close>.
\<close>

theorem reports_tolerate_missing_data_in_range:
  "generate_patient_report now patient_id days db \<noteq> Inl ZeroDivisionError
   \<and> (\<exists>h. get_patient_health_summary now patient_id db = Inr h)
   \<and> (find (\<lambda>p. pt_id p = patient_id) (patients db) = None
        \<longrightarrow> generate_patient_report now patient_id days db = Inr None)
   \<and> (\<bar>days\<bar> \<le> 999999999
       \<and> datetime_min \<le> now - days * day_us \<and> now - days * day_us \<le> datetime_max
        \<longrightarrow> (\<exists>r. generate_patient_report now patient_id days db = Inr r))
   \<and> (find (\<lambda>p. pt_id p = patient_id) (patients db) \<noteq> None
       \<and> \<not> (\<bar>days\<bar> \<le> 999999999
              \<and> datetime_min \<le> now - days * day_us \<and> now - days * day_us \<le> datetime_max)
        \<longrightarrow> generate_patient_report now patient_id days db = Inl OverflowError)
   \<and> (find (\<lambda>p. pt_id p = patient_id) (patients db) \<noteq> None
       \<and> \<bar>days\<bar> \<le> 999999999
       \<and> datetime_min \<le> now - days * day_us \<and> now - days * day_us \<le> datetime_max
       \<and> (\<forall>d \<in> set (wearable_data db).
             \<not> (wd_patient_id d = patient_id \<and> wd_timestamp d \<ge> now - days * day_us))
        \<longrightarrow> (\<exists>r. generate_patient_report now patient_id days db = Inr (Some r)
                 \<and> data_points (rp_summary r) = 0
                 \<and> average_heart_rate (rp_summary r) = None
                 \<and> average_hrv (rp_summary r) = None))
   \<and> ((\<forall>d \<in> set (wearable_data db).
             \<not> (wd_patient_id d = patient_id \<and> wd_timestamp d \<ge> now - timedelta_days 7))
        \<longrightarrow> (\<exists>h. get_patient_health_summary now patient_id db = Inr h
                 \<and> recent_activity h = 0 \<and> data_points_count h = 0))
   \<and> ((\<forall>b \<in> set (biomarkers db).
             \<not> (bm_patient_id b = patient_id \<and> bm_biomarker_type b = RESTING_HR))
        \<longrightarrow> (\<exists>h. get_patient_health_summary now patient_id db = Inr h
                 \<and> latest_heart_rate h = None))"
proof (intro conjI impI)
  show "generate_patient_report now patient_id days db \<noteq> Inl ZeroDivisionError"
    by (rule generate_patient_report_no_zero_division)
  show "\<exists>h. get_patient_health_summary now patient_id db = Inr h"
    by (rule get_patient_health_summary_returns)
  show "generate_patient_report now patient_id days db = Inr None"
    if "find (\<lambda>p. pt_id p = patient_id) (patients db) = None"
    using that by (simp add: generate_patient_report_def)
  show "\<exists>r. generate_patient_report now patient_id days db = Inr r"
    if "\<bar>days\<bar> \<le> 999999999
       \<and> datetime_min \<le> now - days * day_us \<and> now - days * day_us \<le> datetime_max"
    using that generate_patient_report_returns by blast
  show "generate_patient_report now patient_id days db = Inl OverflowError"
    if "find (\<lambda>p. pt_id p = patient_id) (patients db) \<noteq> None
       \<and> \<not> (\<bar>days\<bar> \<le> 999999999
              \<and> datetime_min \<le> now - days * day_us \<and> now - days * day_us \<le> datetime_max)"
    using that generate_patient_report_overflow by blast
  show "\<exists>r. generate_patient_report now patient_id days db = Inr (Some r)
                 \<and> data_points (rp_summary r) = 0
                 \<and> average_heart_rate (rp_summary r) = None
                 \<and> average_hrv (rp_summary r) = None"
    if "find (\<lambda>p. pt_id p = patient_id) (patients db) \<noteq> None
       \<and> \<bar>days\<bar> \<le> 999999999
       \<and> datetime_min \<le> now - days * day_us \<and> now - days * day_us \<le> datetime_max
       \<and> (\<forall>d \<in> set (wearable_data db).
             \<not> (wd_patient_id d = patient_id \<and> wd_timestamp d \<ge> now - days * day_us))"
  proof -
    from that obtain patient where
      "find (\<lambda>p. pt_id p = patient_id) (patients db) = Some patient" by auto
    with that generate_patient_report_no_data [of patient_id db patient days now]
    show ?thesis by blast
  qed
  show "\<exists>h. get_patient_health_summary now patient_id db = Inr h
                 \<and> recent_activity h = 0 \<and> data_points_count h = 0"
    if "\<forall>d \<in> set (wearable_data db).
             \<not> (wd_patient_id d = patient_id \<and> wd_timestamp d \<ge> now - timedelta_days 7)"
    using that by (rule get_patient_health_summary_no_data)
  show "\<exists>h. get_patient_health_summary now patient_id db = Inr h
                 \<and> latest_heart_rate h = None"
    if "\<forall>b \<in> set (biomarkers db).
             \<not> (bm_patient_id b = patient_id \<and> bm_biomarker_type b = RESTING_HR)"
    using that by (rule get_patient_health_summary_no_biomarker)
qed

theorem reports_tolerate_missing_data_in_range_witness:
  "map_sum id (map_option (\<lambda>r. (data_points (rp_summary r), average_heart_rate (rp_summary r),
                                  average_hrv (rp_summary r))))
     (generate_patient_report ex_now ''p1'' 30 ex_clinic_db) = Inr (Some (0, None, None))
   \<and> generate_patient_report ex_now ''p9'' 3000000 ex_clinic_db = Inr None
   \<and> generate_patient_report ex_now ''p1'' 739923 ex_clinic_db = Inl OverflowError
   \<and> map_sum id (\<lambda>h. (latest_heart_rate h, recent_activity h, data_points_count h))
       (get_patient_health_summary ex_now ''p1'' ex_clinic_db) = Inr (None, 0, 0)"
proof -
  have in_range: "\<bar>30::int\<bar> \<le> 999999999" "datetime_min \<le> ex_now - 30 * day_us"
    "ex_now - 30 * day_us \<le> datetime_max"
    by (simp_all add: datetime_min_def datetime_max_def day_us_def ex_now_def)
  have out: "\<not> (\<bar>739923::int\<bar> \<le> 999999999
              \<and> datetime_min \<le> ex_now - 739923 * day_us
              \<and> ex_now - 739923 * day_us \<le> datetime_max)"
    by (simp add: datetime_min_def datetime_max_def day_us_def ex_now_def)
  from reports_tolerate_missing_data_in_range [of ex_now "''p1''" 30 ex_clinic_db]
       reports_tolerate_missing_data_in_range [of ex_now "''p9''" 3000000 ex_clinic_db]
       reports_tolerate_missing_data_in_range [of ex_now "''p1''" 739923 ex_clinic_db]
       in_range out ex_clinic_tables
  show ?thesis by auto
qed

section \<open>The requests of a sync\<close>
















lemma upt_two: "[0..<2] = [0, Suc 0]"
  by (simp add: numeral_2_eq_2)




section \<open>Failed fetches during a sync\<close>







section \<open>Syncing twice\<close>

















section \<open>The demo loader\<close>

text \<open>
  The loader adds its alert to a patient who already has an unresolved alert of the same
  type: the first demo patient of the example store then has two.
\<close>

lemma create_demo_alerts_no_dedup:
  "map_sum id (\<lambda>db. length (open_alerts ''p1'' HIGH_HEART_RATE db))
     (create_demo_alerts (\<lambda>i. if i = 0 then ''d1'' else ''d2'') (\<lambda>_. 7) ex_clinic_db) = Inr 2"
  by (simp add: create_demo_alerts_def demo_alert_def insert_alert_def ex_clinic_db_def
        empty_db_def ex_patient_def ex_patient_high_risk_def new_alert_def ex_alert_data_def
        open_alerts_def enumerate_eq_zip upt_two)

end
